theory Spec2Isabelle
  imports Main "HOL-Library.AList"
begin

section \<open>Python values used by the OSIS parser\<close>

text \<open>
  Python strings are modelled as \<^typ>\<open>string\<close>: one \<^typ>\<open>char\<close> per code point, for the
  code points below 256 (the pilcrow that \<open>clean_paragraph\<close> removes is code point 182).
  Exceptions are values of \<open>py_error\<close>; a function that can raise returns
  \<open>py_error + 'a\<close> with \<open>Inl\<close> for the exception.
\<close>

datatype py_error =
    TypeError | AttributeError | ValueError | IndexError
  | SyntaxError | InvalidBookError | InvalidChapterError | InvalidVerseError

text \<open>\<open>s.startswith(p)\<close>.\<close>

fun startswith :: "string \<Rightarrow> string \<Rightarrow> bool" where
  "startswith s [] = True"
| "startswith [] (p # ps) = False"
| "startswith (c # cs) (p # ps) = (c = p \<and> startswith cs ps)"

text \<open>\<open>s.endswith(" ")\<close>.\<close>

definition endswith_space :: "string \<Rightarrow> bool" where
  "endswith_space s = (s \<noteq> [] \<and> last s = CHR '' '')"

text \<open>
  \<open>s.replace(old, new)\<close> for a non-empty \<open>old\<close>: left to right, non-overlapping.
\<close>

fun replace_ne :: "char \<Rightarrow> string \<Rightarrow> string \<Rightarrow> string \<Rightarrow> string" where
  "replace_ne o1 os new [] = []"
| "replace_ne o1 os new (c # cs) =
     (if c = o1 \<and> startswith cs os
      then new @ replace_ne o1 os new (drop (length os) cs)
      else c # replace_ne o1 os new cs)"

text \<open>
  \<open>s.replace(old, new)\<close>; with an empty \<open>old\<close> Python puts \<open>new\<close> before every
  character and at the end.
\<close>

definition replace :: "string \<Rightarrow> string \<Rightarrow> string \<Rightarrow> string" where
  "replace s old new =
     (case old of
        [] \<Rightarrow> new @ concat (map (\<lambda>c. c # new) s)
      | o1 # os \<Rightarrow> replace_ne o1 os new s)"

text \<open>The characters \<open>str.strip()\<close> removes, among the code points below 256.\<close>

definition isspace :: "char \<Rightarrow> bool" where
  "isspace c = (let n = of_char c :: nat in
     (9 \<le> n \<and> n \<le> 13) \<or> (28 \<le> n \<and> n \<le> 32) \<or> n = 133 \<or> n = 160)"

definition strip :: "string \<Rightarrow> string" where
  "strip s = rev (dropWhile isspace (rev (dropWhile isspace s)))"

text \<open>\<open>s.split(sep)\<close> for a one-character separator: never an empty list.\<close>

fun split :: "char \<Rightarrow> string \<Rightarrow> string list" where
  "split sep [] = [[]]"
| "split sep (c # cs) =
     (if c = sep then [] # split sep cs
      else (case split sep cs of
              [] \<Rightarrow> [[c]]
            | w # ws \<Rightarrow> (c # w) # ws))"

text \<open>\<open>s.index(c)\<close> for a character: the first position, or \<open>ValueError\<close>.\<close>

fun index_from :: "nat \<Rightarrow> char \<Rightarrow> string \<Rightarrow> py_error + nat" where
  "index_from n c [] = Inl ValueError"
| "index_from n c (x # xs) = (if x = c then Inr n else index_from (Suc n) c xs)"

definition str_index :: "string \<Rightarrow> char \<Rightarrow> py_error + nat" where
  "str_index s c = index_from 0 c s"

text \<open>
  \<open>int(s)\<close> on a string: surrounding whitespace is dropped, one sign is allowed, and
  the digits may be grouped by single underscores; anything else is \<open>ValueError\<close>.
\<close>

definition isdigit :: "char \<Rightarrow> bool" where
  "isdigit c = (let n = of_char c :: nat in 48 \<le> n \<and> n \<le> 57)"

definition digit_val :: "char \<Rightarrow> int" where
  "digit_val c = int (of_char c) - 48"

fun digits_ok :: "bool \<Rightarrow> string \<Rightarrow> bool" where
  "digits_ok after_digit [] = after_digit"
| "digits_ok after_digit (c # cs) =
     (if isdigit c then digits_ok True cs
      else if c = CHR ''_'' then after_digit \<and> digits_ok False cs
      else False)"

definition digits_value :: "string \<Rightarrow> int" where
  "digits_value s = foldl (\<lambda>acc c. 10 * acc + digit_val c) 0 (filter isdigit s)"

definition parse_digits :: "string \<Rightarrow> py_error + int" where
  "parse_digits s = (if digits_ok False s then Inr (digits_value s) else Inl ValueError)"

definition py_int :: "string \<Rightarrow> py_error + int" where
  "py_int s =
     (case strip s of
        [] \<Rightarrow> Inl ValueError
      | c # cs \<Rightarrow>
          if c = CHR ''-'' then
            (case parse_digits cs of Inl e \<Rightarrow> Inl e | Inr n \<Rightarrow> Inr (- n))
          else if c = CHR ''+'' then parse_digits cs
          else parse_digits (c # cs))"

text \<open>\<open>str(n)\<close> for an integer, as \<open>str.format\<close> prints it.\<close>

function digits_of :: "nat \<Rightarrow> string" where
  "digits_of n =
     (if n < 10 then [char_of (48 + n)]
      else digits_of (n div 10) @ [char_of (48 + n mod 10)])"
  by pat_completeness auto
termination
  by (relation "measure (\<lambda>n. n)") auto

definition str_of_int :: "int \<Rightarrow> string" where
  "str_of_int i =
     (if i < 0 then CHR ''-'' # digits_of (nat (- i)) else digits_of (nat i))"

section \<open>The book table (\<open>constants.py\<close>)\<close>

text \<open>
  \<open>Book\<close> is the enumeration of the \<open>pythonbible\<close> library; a member is identified
  by its name. \<open>BOOK_IDS\<close> is the dictionary of \<open>constants.py\<close> in its insertion
  order; the members named only in its commented-out lines (\<open>BARUCH\<close>, \<open>JUDITH\<close>, ...)
  have no entry.
\<close>

datatype Book = Book string

definition BOOK_IDS :: "(Book \<times> string) list" where
  "BOOK_IDS = [
    (Book ''GENESIS'', ''Gen''),
    (Book ''EXODUS'', ''Exod''),
    (Book ''LEVITICUS'', ''Lev''),
    (Book ''NUMBERS'', ''Num''),
    (Book ''DEUTERONOMY'', ''Deut''),
    (Book ''JOSHUA'', ''Josh''),
    (Book ''JUDGES'', ''Judg''),
    (Book ''RUTH'', ''Ruth''),
    (Book ''SAMUEL_1'', ''1Sam''),
    (Book ''SAMUEL_2'', ''2Sam''),
    (Book ''KINGS_1'', ''1Kgs''),
    (Book ''KINGS_2'', ''2Kgs''),
    (Book ''CHRONICLES_1'', ''1Chr''),
    (Book ''CHRONICLES_2'', ''2Chr''),
    (Book ''EZRA'', ''Ezra''),
    (Book ''NEHEMIAH'', ''Neh''),
    (Book ''ESTHER'', ''Esth''),
    (Book ''JOB'', ''Job''),
    (Book ''PSALMS'', ''Ps''),
    (Book ''PROVERBS'', ''Prov''),
    (Book ''ECCLESIASTES'', ''Eccl''),
    (Book ''SONG_OF_SONGS'', ''Song''),
    (Book ''ISAIAH'', ''Isa''),
    (Book ''JEREMIAH'', ''Jer''),
    (Book ''LAMENTATIONS'', ''Lam''),
    (Book ''EZEKIEL'', ''Ezek''),
    (Book ''DANIEL'', ''Dan''),
    (Book ''HOSEA'', ''Hos''),
    (Book ''JOEL'', ''Joel''),
    (Book ''AMOS'', ''Amos''),
    (Book ''OBADIAH'', ''Obad''),
    (Book ''JONAH'', ''Jonah''),
    (Book ''MICAH'', ''Mic''),
    (Book ''NAHUM'', ''Nah''),
    (Book ''HABAKKUK'', ''Hab''),
    (Book ''ZEPHANIAH'', ''Zeph''),
    (Book ''HAGGAI'', ''Hag''),
    (Book ''ZECHARIAH'', ''Zech''),
    (Book ''MALACHI'', ''Mal''),
    (Book ''MATTHEW'', ''Matt''),
    (Book ''MARK'', ''Mark''),
    (Book ''LUKE'', ''Luke''),
    (Book ''JOHN'', ''John''),
    (Book ''ACTS'', ''Acts''),
    (Book ''ROMANS'', ''Rom''),
    (Book ''CORINTHIANS_1'', ''1Cor''),
    (Book ''CORINTHIANS_2'', ''2Cor''),
    (Book ''GALATIANS'', ''Gal''),
    (Book ''EPHESIANS'', ''Eph''),
    (Book ''PHILIPPIANS'', ''Phil''),
    (Book ''COLOSSIANS'', ''Col''),
    (Book ''THESSALONIANS_1'', ''1Thess''),
    (Book ''THESSALONIANS_2'', ''2Thess''),
    (Book ''TIMOTHY_1'', ''1Tim''),
    (Book ''TIMOTHY_2'', ''2Tim''),
    (Book ''TITUS'', ''Titus''),
    (Book ''PHILEMON'', ''Phlm''),
    (Book ''HEBREWS'', ''Heb''),
    (Book ''JAMES'', ''Jas''),
    (Book ''PETER_1'', ''1Pet''),
    (Book ''PETER_2'', ''2Pet''),
    (Book ''JOHN_1'', ''1John''),
    (Book ''JOHN_2'', ''2John''),
    (Book ''JOHN_3'', ''3John''),
    (Book ''JUDE'', ''Jude''),
    (Book ''REVELATION'', ''Rev''),
    (Book ''ESDRAS_1'', ''1Esd''),
    (Book ''MACCABEES_1'', ''1Macc''),
    (Book ''MACCABEES_2'', ''2Macc''),
    (Book ''ECCLESIASTICUS'', ''Sir''),
    (Book ''TOBIT'', ''Tobit''),
    (Book ''WISDOM_OF_SOLOMON'', ''Wis'')
  ]"

text \<open>\<open>BOOK_IDS.get(book)\<close>: \<open>None\<close> when the book has no entry.\<close>

definition BOOK_IDS_get :: "Book \<Rightarrow> string option" where
  "BOOK_IDS_get book = map_of BOOK_IDS book"

text \<open>The first book whose id is \<open>book_id\<close>, or \<open>InvalidBookError\<close>.\<close>

fun get_book_by_id_loop :: "(Book \<times> string) list \<Rightarrow> string \<Rightarrow> py_error + Book" where
  "get_book_by_id_loop [] book_id = Inl InvalidBookError"
| "get_book_by_id_loop ((next_book, next_book_id) # items) book_id =
     (if book_id = next_book_id then Inr next_book
      else get_book_by_id_loop items book_id)"

definition get_book_by_id :: "string \<Rightarrow> py_error + Book" where
  "get_book_by_id book_id = get_book_by_id_loop BOOK_IDS book_id"

section \<open>The document and the external library\<close>

text \<open>
  An \<open>xml.etree\<close> element: its qualified tag (\<open>{namespace}name\<close>), its attributes,
  its text, the text after its closing tag, and its children in document order.
\<close>

datatype element =
  Element (tag: string) (attrib: "(string \<times> string) list")
    (etext: "string option") (etail: "string option") (children: "element list")

text \<open>\<open>element.get(key)\<close>.\<close>

definition element_get :: "element \<Rightarrow> string \<Rightarrow> string option" where
  "element_get element key = map_of (attrib element) key"

text \<open>
  What the parser imports and this repository's \<open>src\<close> does not define: the verse
  numbering of \<open>pythonbible\<close> (both directions, each may raise) and
  \<open>sort_paragraphs\<close> of \<open>bible_parser\<close>. They are parameters of the model.
\<close>

type_synonym passage = "(Book \<times> (int \<times> string list) list) list"

record externals =
  get_book_chapter_verse :: "int \<Rightarrow> py_error + (Book \<times> int \<times> int)"
  get_verse_id :: "Book \<Rightarrow> int \<Rightarrow> int \<Rightarrow> py_error + int"
  sort_paragraphs :: "passage \<Rightarrow> passage"

text \<open>The parser object: the parsed tree and the prefix map built by \<open>__init__\<close>.\<close>

record OSISParser =
  tree :: element
  namespaces :: "(string \<times> string) list"

section \<open>Tags and namespaces\<close>

text \<open>\<open>tag[tag.index("{") + 1 : tag.index("}")]\<close>.\<close>

definition get_namespace :: "string \<Rightarrow> py_error + string" where
  "get_namespace tg =
     (case str_index tg (CHR ''{'') of
        Inl e \<Rightarrow> Inl e
      | Inr i \<Rightarrow>
          (case str_index tg (CHR ''}'') of
             Inl e \<Rightarrow> Inl e
           | Inr j \<Rightarrow> Inr (take (j - (i + 1)) (drop (i + 1) tg))))"

definition strip_namespace_from_tag :: "string \<Rightarrow> py_error + string" where
  "strip_namespace_from_tag tg =
     (case get_namespace tg of
        Inl e \<Rightarrow> Inl e
      | Inr ns \<Rightarrow> Inr (replace (replace (replace tg ns []) ''{'' []) ''}'' []))"

text \<open>
  \<open>OSISParser.__init__\<close>, from the root element of the parsed file (reading the file
  is outside the model).
\<close>

definition OSISParser_init :: "element \<Rightarrow> py_error + OSISParser" where
  "OSISParser_init root =
     (case get_namespace (tag root) of
        Inl e \<Rightarrow> Inl e
      | Inr ns \<Rightarrow> Inr \<lparr>tree = root, namespaces = [(''xmlns'', ns)]\<rparr>)"

section \<open>Location paths\<close>

text \<open>
  \<open>tree.find(path, namespaces)\<close> for the two path templates of the parser. A step
  \<open>xmlns:name\<close> matches the tag \<open>{uri}name\<close> with \<open>uri\<close> the entry of the prefix in
  the map (a missing prefix is a \<open>SyntaxError\<close>); \<open>.//\<close> ranges over the proper
  descendants of the root in document order; \<open>find\<close> returns the first result or
  \<open>None\<close>.
\<close>

fun descendants :: "element \<Rightarrow> (element \<times> element) list" where
  "descendants (Element tg ats tx ta cs) =
     concat (map (\<lambda>c. (Element tg ats tx ta cs, c) # descendants c) cs)"

definition qualify :: "(string \<times> string) list \<Rightarrow> string \<Rightarrow> py_error + string" where
  "qualify nss name =
     (case map_of nss ''xmlns'' of
        None \<Rightarrow> Inl SyntaxError
      | Some uri \<Rightarrow> Inr (''{'' @ uri @ ''}'' @ name))"

text \<open>\<open>.//xmlns:verse[@osisID='osis_id']/..\<close>: the parent of the first such verse.\<close>

definition find_verse_parent ::
  "element \<Rightarrow> (string \<times> string) list \<Rightarrow> string \<Rightarrow> py_error + element option" where
  "find_verse_parent root nss osis_id =
     (case qualify nss ''verse'' of
        Inl e \<Rightarrow> Inl e
      | Inr vt \<Rightarrow>
          (case filter (\<lambda>(parent, e). tag e = vt \<and> element_get e ''osisID'' = Some osis_id)
                  (descendants root) of
             [] \<Rightarrow> Inr None
           | (parent, e) # rest \<Rightarrow> Inr (Some parent)))"

text \<open>\<open>.//xmlns:div[@osisID='osis_id']/xmlns:title\<close>: the first title child of such a div.\<close>

definition find_book_title ::
  "element \<Rightarrow> (string \<times> string) list \<Rightarrow> string \<Rightarrow> py_error + element option" where
  "find_book_title root nss osis_id =
     (case qualify nss ''div'' of
        Inl e \<Rightarrow> Inl e
      | Inr dt \<Rightarrow>
          (case qualify nss ''title'' of
             Inl e \<Rightarrow> Inl e
           | Inr tt \<Rightarrow>
               (case concat (map (\<lambda>(parent, e). filter (\<lambda>c. tag c = tt) (children e))
                       (filter (\<lambda>(parent, e). tag e = dt \<and> element_get e ''osisID'' = Some osis_id)
                          (descendants root))) of
                  [] \<Rightarrow> Inr None
                | t # rest \<Rightarrow> Inr (Some t))))"

text \<open>\<open>"{}".format(x)\<close> for an optional string: \<open>None\<close> prints as \<open>None\<close>.\<close>

definition format_opt :: "string option \<Rightarrow> string" where
  "format_opt x = (case x of None \<Rightarrow> ''None'' | Some s \<Rightarrow> s)"

section \<open>Titles\<close>

definition get_book_title_element :: "OSISParser \<Rightarrow> Book \<Rightarrow> py_error + element option" where
  "get_book_title_element self book =
     find_book_title (tree self) (namespaces self) (format_opt (BOOK_IDS_get book))"

text \<open>\<open>book_title_element.text or ""\<close>; on \<open>None\<close> the attribute access raises.\<close>

definition get_book_title :: "OSISParser \<Rightarrow> Book \<Rightarrow> py_error + string" where
  "get_book_title self book =
     (case get_book_title_element self book of
        Inl e \<Rightarrow> Inl e
      | Inr None \<Rightarrow> Inl AttributeError
      | Inr (Some book_title_element) \<Rightarrow>
          (case etext book_title_element of
             None \<Rightarrow> Inr []
           | Some t \<Rightarrow> Inr (if t = [] then [] else t)))"

text \<open>\<open>book_title_element.get("short", "")\<close>.\<close>

definition get_short_book_title :: "OSISParser \<Rightarrow> Book \<Rightarrow> py_error + string" where
  "get_short_book_title self book =
     (case get_book_title_element self book of
        Inl e \<Rightarrow> Inl e
      | Inr None \<Rightarrow> Inl AttributeError
      | Inr (Some book_title_element) \<Rightarrow>
          (case element_get book_title_element ''short'' of
             None \<Rightarrow> Inr []
           | Some v \<Rightarrow> Inr v))"

section \<open>Element text\<close>

definition get_element_text :: "element \<Rightarrow> string" where
  "get_element_text element =
     (case etext element of
        None \<Rightarrow> []
      | Some t \<Rightarrow> if t = [] then [] else replace t [CHR 0x0A] '' '')"

definition get_element_tail :: "element \<Rightarrow> string" where
  "get_element_tail element =
     (case etail element of
        None \<Rightarrow> []
      | Some t \<Rightarrow> if t = [] then [] else replace t [CHR 0x0A] '' '')"

definition get_element_text_and_tail :: "element \<Rightarrow> string" where
  "get_element_text_and_tail element = get_element_text element @ get_element_tail element"

definition clean_paragraph :: "string \<Rightarrow> string" where
  "clean_paragraph paragraph =
     (let cleaned_paragraph = replace (replace paragraph [CHR 0xB6] []) ''  '' '' ''
      in strip cleaned_paragraph)"

section \<open>The traversal\<close>

text \<open>
  The \<open>lru_cache\<close> decorators are not modelled: every function is its body, as on a
  call with an empty cache. The traversal state is the pair
  \<open>(skip_till_next_verse, current_verse_id)\<close>; the identifier may be \<open>None\<close>.
\<close>

type_synonym contribution = "string \<times> bool \<times> int option"

text \<open>
  Lines 337 to 342 of \<open>_handle_verse_tag\<close>: the id is split at the dots into exactly
  three parts, the book is looked up, chapter and verse are read as integers, and the
  library builds the verse id. The result keeps the verse part as written.
\<close>

definition decode_osis_id :: "externals \<Rightarrow> string \<Rightarrow> py_error + (int \<times> string)" where
  "decode_osis_id lib osis_id =
     (case split (CHR ''.'') osis_id of
        [book_id, chapter, verse] \<Rightarrow>
          (case get_book_by_id book_id of
             Inl e \<Rightarrow> Inl e
           | Inr book \<Rightarrow>
               (case py_int chapter of
                  Inl e \<Rightarrow> Inl e
                | Inr c \<Rightarrow>
                    (case py_int verse of
                       Inl e \<Rightarrow> Inl e
                     | Inr v \<Rightarrow>
                         (case get_verse_id lib book c v of
                            Inl e \<Rightarrow> Inl e
                          | Inr verse_id \<Rightarrow> Inr (verse_id, verse)))))
      | _ \<Rightarrow> Inl ValueError)"

text \<open>\<open>current_verse_id is not None and verse_id > current_verse_id + 1\<close>.\<close>

definition jumps_over :: "int option \<Rightarrow> int \<Rightarrow> bool" where
  "jumps_over current_verse_id verse_id =
     (case current_verse_id of None \<Rightarrow> False | Some c \<Rightarrow> verse_id > c + 1)"

definition handle_verse_tag ::
  "externals \<Rightarrow> element \<Rightarrow> int list \<Rightarrow> bool \<Rightarrow> int option \<Rightarrow> bool
     \<Rightarrow> py_error + contribution" where
  "handle_verse_tag lib child_element verse_ids skip_till_next_verse current_verse_id
       include_verse_number =
     (let osis_id = (case element_get child_element ''osisID'' of
                       None \<Rightarrow> ''..'' | Some v \<Rightarrow> v)
      in if osis_id = ''..'' then Inr ([], skip_till_next_verse, current_verse_id)
         else
           (case decode_osis_id lib osis_id of
              Inl e \<Rightarrow> Inl e
            | Inr (verse_id, verse) \<Rightarrow>
                if verse_id \<in> set verse_ids then
                  Inr ((if skip_till_next_verse \<and> jumps_over current_verse_id verse_id
                        then ''... '' else [])
                       @ (if include_verse_number then verse @ ''. '' else [])
                       @ get_element_text_and_tail child_element,
                       False, Some verse_id)
                else Inr ([], True, current_verse_id)))"

text \<open>
  \<open>_handle_child_element\<close> and its loop over the grandchildren. The loop passes the
  \<open>current_verse_id\<close> of the call to every grandchild and keeps the identifier the
  last grandchild returned.
\<close>

function handle_child_element ::
  "externals \<Rightarrow> element \<Rightarrow> int list \<Rightarrow> bool \<Rightarrow> int option \<Rightarrow> bool \<Rightarrow> bool
     \<Rightarrow> py_error + contribution"
and handle_grandchildren ::
  "externals \<Rightarrow> element list \<Rightarrow> int list \<Rightarrow> int option \<Rightarrow> bool \<Rightarrow> bool
     \<Rightarrow> string \<Rightarrow> bool \<Rightarrow> int option \<Rightarrow> py_error + contribution" where
  "handle_child_element lib (Element tg ats tx ta cs) verse_ids skip_till_next_verse
       current_verse_id include_verse_number inside_note =
     (case strip_namespace_from_tag tg of
        Inl e \<Rightarrow> Inl e
      | Inr t \<Rightarrow>
          if t = ''verse'' then
            handle_verse_tag lib (Element tg ats tx ta cs) verse_ids skip_till_next_verse
              current_verse_id include_verse_number
          else if skip_till_next_verse then Inr ([], skip_till_next_verse, current_verse_id)
          else if t = ''rdg'' then
            Inr (get_element_text (Element tg ats tx ta cs), skip_till_next_verse,
                 current_verse_id)
          else if inside_note then Inr ([], skip_till_next_verse, current_verse_id)
          else if t = ''w'' \<or> t = ''transChange'' then
            Inr (get_element_text_and_tail (Element tg ats tx ta cs), skip_till_next_verse,
                 current_verse_id)
          else
            (case handle_grandchildren lib cs verse_ids current_verse_id
                    include_verse_number (t = ''note'')
                    (if t = ''q'' then get_element_text_and_tail (Element tg ats tx ta cs)
                     else [])
                    skip_till_next_verse current_verse_id of
               Inl e \<Rightarrow> Inl e
             | Inr (paragraph, skip', new_current_verse_id) \<Rightarrow>
                 Inr (clean_paragraph
                        (if t = ''seg'' then paragraph @ get_element_tail (Element tg ats tx ta cs)
                         else paragraph),
                      skip', new_current_verse_id)))"
| "handle_grandchildren lib [] verse_ids current_verse_id include_verse_number note
       paragraph skip_till_next_verse new_current_verse_id =
     Inr (paragraph, skip_till_next_verse, new_current_verse_id)"
| "handle_grandchildren lib (grandchild_element # rest) verse_ids current_verse_id
       include_verse_number note paragraph skip_till_next_verse new_current_verse_id =
     (case handle_child_element lib grandchild_element verse_ids skip_till_next_verse
             current_verse_id include_verse_number note of
        Inl e \<Rightarrow> Inl e
      | Inr (grandchild_paragraph, skip', new_current_verse_id') \<Rightarrow>
          handle_grandchildren lib rest verse_ids current_verse_id include_verse_number note
            (paragraph @ grandchild_paragraph) skip' new_current_verse_id')"
  by pat_completeness auto
termination
  by (relation "measure (\<lambda>x. case x of
          Inl (lib, element, r) \<Rightarrow> size element
        | Inr (lib, elements, r) \<Rightarrow> size_list size elements)") auto

text \<open>The loop of \<open>_get_paragraph_from_element\<close> over the children of the paragraph.\<close>

fun paragraph_loop ::
  "externals \<Rightarrow> element list \<Rightarrow> int list \<Rightarrow> bool \<Rightarrow> string \<Rightarrow> bool \<Rightarrow> int option
     \<Rightarrow> py_error + contribution" where
  "paragraph_loop lib [] verse_ids include_verse_number paragraph skip_till_next_verse
       new_current_verse_id =
     Inr (paragraph, skip_till_next_verse, new_current_verse_id)"
| "paragraph_loop lib (child_element # rest) verse_ids include_verse_number paragraph
       skip_till_next_verse new_current_verse_id =
     (case handle_child_element lib child_element verse_ids skip_till_next_verse
             new_current_verse_id include_verse_number False of
        Inl e \<Rightarrow> Inl e
      | Inr (child_paragraph, skip', new_current_verse_id') \<Rightarrow>
          if length child_paragraph = 0 then
            paragraph_loop lib rest verse_ids include_verse_number paragraph skip'
              new_current_verse_id'
          else
            paragraph_loop lib rest verse_ids include_verse_number
              ((if length paragraph > 0 \<and> \<not> endswith_space paragraph
                then paragraph @ '' '' else paragraph) @ child_paragraph)
              skip' new_current_verse_id')"

text \<open>Iterating over \<open>None\<close> (no paragraph element was found) is a \<open>TypeError\<close>.\<close>

definition get_paragraph_from_element ::
  "externals \<Rightarrow> element option \<Rightarrow> int list \<Rightarrow> int option \<Rightarrow> bool
     \<Rightarrow> py_error + (string list \<times> int option)" where
  "get_paragraph_from_element lib paragraph_element verse_ids current_verse_id
       include_verse_number =
     (case paragraph_element of
        None \<Rightarrow> Inl TypeError
      | Some element \<Rightarrow>
          (case paragraph_loop lib (children element) verse_ids include_verse_number []
                  False current_verse_id of
             Inl e \<Rightarrow> Inl e
           | Inr (paragraph, skip, new_current_verse_id) \<Rightarrow>
               Inr ([clean_paragraph paragraph], new_current_verse_id)))"

text \<open>\<open>verse_ids.index(x)\<close>: the first position of \<open>x\<close>, or \<open>ValueError\<close>.\<close>

fun tuple_index_from :: "nat \<Rightarrow> int list \<Rightarrow> int option \<Rightarrow> py_error + nat" where
  "tuple_index_from n [] x = Inl ValueError"
| "tuple_index_from n (v # vs) x =
     (if Some v = x then Inr n else tuple_index_from (Suc n) vs x)"

definition tuple_index :: "int list \<Rightarrow> int option \<Rightarrow> py_error + nat" where
  "tuple_index verse_ids x = tuple_index_from 0 verse_ids x"

text \<open>\<open>d.get(key, default)\<close> on a dictionary kept in insertion order.\<close>

definition dict_get :: "('k \<times> 'v) list \<Rightarrow> 'k \<Rightarrow> 'v \<Rightarrow> 'v" where
  "dict_get d key dflt = (case map_of d key of None \<Rightarrow> dflt | Some v \<Rightarrow> v)"

text \<open>The path \<open>.//xmlns:verse[@osisID='{}.{}.{}']/..\<close> filled in.\<close>

definition verse_osis_id :: "Book \<Rightarrow> int \<Rightarrow> int \<Rightarrow> string" where
  "verse_osis_id book chapter verse =
     format_opt (BOOK_IDS_get book) @ ''.'' @ str_of_int chapter @ ''.'' @ str_of_int verse"

function get_paragraphs ::
  "externals \<Rightarrow> element \<Rightarrow> (string \<times> string) list \<Rightarrow> int list \<Rightarrow> bool
     \<Rightarrow> py_error + passage" where
  "get_paragraphs lib root nss verse_ids include_verse_number =
     (case verse_ids of
        [] \<Rightarrow> Inl IndexError
      | first_id # others \<Rightarrow>
          (case get_book_chapter_verse lib first_id of
             Inl e \<Rightarrow> Inl e
           | Inr (book, chapter, verse) \<Rightarrow>
               (case find_verse_parent root nss (verse_osis_id book chapter verse) of
                  Inl e \<Rightarrow> Inl e
                | Inr paragraph_element \<Rightarrow>
                    (case get_paragraph_from_element lib paragraph_element verse_ids
                            (Some first_id) include_verse_number of
                       Inl e \<Rightarrow> Inl e
                     | Inr (paragraphs, current_verse_id) \<Rightarrow>
                         (case tuple_index verse_ids current_verse_id of
                            Inl e \<Rightarrow> Inl e
                          | Inr i \<Rightarrow>
                              (case (if i + 1 < length verse_ids
                                     then get_paragraphs lib root nss (drop (i + 1) verse_ids)
                                            include_verse_number
                                     else Inr []) of
                                 Inl e \<Rightarrow> Inl e
                               | Inr paragraph_dictionary \<Rightarrow>
                                   (let book_dictionary = dict_get paragraph_dictionary book [];
                                        chapter_list = dict_get book_dictionary chapter []
                                    in Inr (AList.update book
                                              (AList.update chapter (paragraphs @ chapter_list)
                                                 book_dictionary)
                                              paragraph_dictionary))))))))"
  by pat_completeness auto
termination
  by (relation "measure (\<lambda>(lib, root, nss, verse_ids, flag). length verse_ids)") auto

section \<open>The public operations\<close>

text \<open>
  \<open>get_scripture_passage_text\<close>. The list argument may be \<open>None\<close>; the keyword
  argument may be absent (then it is \<open>True\<close>). The list is sorted in place before
  the extraction, so the model returns, with the result, the parser and the caller's
  list as they are when the call ends (also when it ends by raising).
\<close>

definition get_scripture_passage_text_memoized ::
  "externals \<Rightarrow> OSISParser \<Rightarrow> int list \<Rightarrow> bool \<Rightarrow> py_error + passage" where
  "get_scripture_passage_text_memoized lib self verse_ids include_verse_number =
     (case get_paragraphs lib (tree self) (namespaces self) verse_ids include_verse_number of
        Inl e \<Rightarrow> Inl e
      | Inr paragraphs \<Rightarrow> Inr (sort_paragraphs lib paragraphs))"

definition get_scripture_passage_text ::
  "externals \<Rightarrow> OSISParser \<Rightarrow> int list option \<Rightarrow> bool option
     \<Rightarrow> (py_error + passage) \<times> OSISParser \<times> int list option" where
  "get_scripture_passage_text lib self verse_ids kwargs =
     (case verse_ids of
        None \<Rightarrow> (Inr [], self, verse_ids)
      | Some ids \<Rightarrow>
          if ids = [] then (Inr [], self, verse_ids)
          else
            (let sorted_ids = sort ids;
                 include_verse_number = (case kwargs of None \<Rightarrow> True | Some b \<Rightarrow> b)
             in (get_scripture_passage_text_memoized lib self sorted_ids include_verse_number,
                 self, Some sorted_ids)))"

section \<open>Notions used to state the properties\<close>

text \<open>
  The contributions of the children of a paragraph element, one by one: the calls
  of the loop of \<open>_get_paragraph_from_element\<close>, with the state threaded the same way,
  and the results kept as a list instead of being joined.
\<close>

fun child_contributions ::
  "externals \<Rightarrow> element list \<Rightarrow> int list \<Rightarrow> bool \<Rightarrow> bool \<Rightarrow> int option
     \<Rightarrow> py_error + (string list \<times> bool \<times> int option)" where
  "child_contributions lib [] verse_ids include_verse_number skip cur = Inr ([], skip, cur)"
| "child_contributions lib (child_element # rest) verse_ids include_verse_number skip cur =
     (case handle_child_element lib child_element verse_ids skip cur include_verse_number
             False of
        Inl e \<Rightarrow> Inl e
      | Inr (child_paragraph, skip', cur') \<Rightarrow>
          (case child_contributions lib rest verse_ids include_verse_number skip' cur' of
             Inl e \<Rightarrow> Inl e
           | Inr (following, skip'', cur'') \<Rightarrow> Inr (child_paragraph # following, skip'', cur'')))"

text \<open>
  The same for the loop over the grandchildren in \<open>_handle_child_element\<close>: every
  call gets the \<open>current_verse_id\<close> of the enclosing call.
\<close>

fun grandchild_contributions ::
  "externals \<Rightarrow> element list \<Rightarrow> int list \<Rightarrow> int option \<Rightarrow> bool \<Rightarrow> bool \<Rightarrow> bool
     \<Rightarrow> int option \<Rightarrow> py_error + (string list \<times> bool \<times> int option)" where
  "grandchild_contributions lib [] verse_ids current_verse_id include_verse_number
       inside skip new_cur = Inr ([], skip, new_cur)"
| "grandchild_contributions lib (grandchild_element # rest) verse_ids current_verse_id
       include_verse_number inside skip new_cur =
     (case handle_child_element lib grandchild_element verse_ids skip current_verse_id
             include_verse_number inside of
        Inl e \<Rightarrow> Inl e
      | Inr (grandchild_paragraph, skip', new_cur') \<Rightarrow>
          (case grandchild_contributions lib rest verse_ids current_verse_id
                  include_verse_number inside skip' new_cur' of
             Inl e \<Rightarrow> Inl e
           | Inr (following, skip'', new_cur'') \<Rightarrow>
               Inr (grandchild_paragraph # following, skip'', new_cur'')))"

text \<open>
  The joining rule in words: the non-empty contributions in order, with one space
  between two consecutive ones unless the first of the two ends with a space.
\<close>

fun join_with_spaces :: "string list \<Rightarrow> string" where
  "join_with_spaces [] = []"
| "join_with_spaces [c] = c"
| "join_with_spaces (c # d # ds) =
     c @ (if endswith_space c then [] else '' '') @ join_with_spaces (d # ds)"

definition join_contributions :: "string list \<Rightarrow> string" where
  "join_contributions cs = join_with_spaces (filter (\<lambda>c. c \<noteq> []) cs)"


text \<open>
  The identifiers that the calls of \<open>_get_paragraphs\<close> start from: the first of the
  tuple, then the first of each suffix the recursion is called on. The recursion is
  that of \<open>get_paragraphs\<close>.
\<close>

function call_starts ::
  "externals \<Rightarrow> element \<Rightarrow> (string \<times> string) list \<Rightarrow> int list \<Rightarrow> bool \<Rightarrow> int list" where
  "call_starts lib root nss verse_ids include_verse_number =
     (case verse_ids of
        [] \<Rightarrow> []
      | first_id # others \<Rightarrow>
          first_id #
          (case get_book_chapter_verse lib first_id of
             Inl e \<Rightarrow> []
           | Inr (book, chapter, verse) \<Rightarrow>
               (case find_verse_parent root nss (verse_osis_id book chapter verse) of
                  Inl e \<Rightarrow> []
                | Inr paragraph_element \<Rightarrow>
                    (case get_paragraph_from_element lib paragraph_element verse_ids
                            (Some first_id) include_verse_number of
                       Inl e \<Rightarrow> []
                     | Inr (paragraphs, current_verse_id) \<Rightarrow>
                         (case tuple_index verse_ids current_verse_id of
                            Inl e \<Rightarrow> []
                          | Inr i \<Rightarrow>
                              if i + 1 < length verse_ids
                              then call_starts lib root nss (drop (i + 1) verse_ids)
                                     include_verse_number
                              else [])))))"
  by pat_completeness auto
termination
  by (relation "measure (\<lambda>(lib, root, nss, verse_ids, flag). length verse_ids)") auto

section \<open>A sample library and document\<close>

text \<open>
  Concrete inputs on which the theorems below are instantiated: a verse numbering
  with one million ids per book and one thousand per chapter, for three books (the
  third has no entry in \<open>BOOK_IDS\<close>), and a small document in the namespace \<open>u\<close>.
\<close>

definition sample_lib :: externals where
  "sample_lib = \<lparr>
     get_book_chapter_verse = (\<lambda>i.
        if i \<le> 0 then Inl InvalidVerseError
        else Inr (if i div 1000000 = 1 then Book ''GENESIS''
                  else if i div 1000000 = 2 then Book ''EXODUS'' else Book ''BARUCH'',
                  (i div 1000) mod 1000, i mod 1000)),
     get_verse_id = (\<lambda>b c v.
        if b = Book ''GENESIS'' then Inr (1000000 + 1000 * c + v)
        else if b = Book ''EXODUS'' then Inr (2000000 + 1000 * c + v)
        else Inl InvalidVerseError),
     sort_paragraphs = (\<lambda>d. d) \<rparr>"

definition sample_verse :: "string \<Rightarrow> string \<Rightarrow> element" where
  "sample_verse osis_id t = Element ''{u}verse'' [(''osisID'', osis_id)] (Some t) (Some '' '') []"

definition sample_word :: "string \<Rightarrow> element" where
  "sample_word t = Element ''{u}w'' [] (Some t) None []"

definition sample_line :: element where
  "sample_line = Element ''{u}l'' [] None None [sample_word ''a'', sample_word ''b'']"

definition sample_note :: element where
  "sample_note = Element ''{u}note'' [] (Some ''Or'') None
     [Element ''{u}catchWord'' [] (Some ''word'') None [],
      Element ''{u}rdg'' [] (Some ''reading'') None []]"

definition sample_paragraph_1 :: element where
  "sample_paragraph_1 = Element ''{u}p'' [] None None
     [sample_verse ''Gen.1.1'' ''one'', sample_verse ''Gen.1.2'' ''two'',
      sample_verse ''Gen.1.3'' ''three'']"

definition sample_paragraph_2 :: element where
  "sample_paragraph_2 = Element ''{u}p'' [] None None
     [sample_verse ''Gen.1.4'' ''four'', sample_line, sample_note,
      sample_verse ''Gen.1.6'' ''six'']"

definition sample_document :: element where
  "sample_document = Element ''{u}osis'' [] None None
     [Element ''{u}div'' [(''osisID'', ''Gen'')] None None
        [Element ''{u}title'' [] None None [],
         sample_paragraph_1, sample_paragraph_2],
      Element ''{u}div'' [(''osisID'', ''Exod'')] None None []]"

definition sample_parser :: OSISParser where
  "sample_parser = \<lparr>tree = sample_document, namespaces = [(''xmlns'', ''u'')]\<rparr>"

section \<open>The current verse identifier stays among the requested ones\<close>

text \<open>
  Every handler returns, as the current identifier, either the one it was given or a
  requested one. The loop over the grandchildren may also return the identifier it
  started with.
\<close>

lemma handle_verse_tag_current:
  "handle_verse_tag lib el verse_ids skip cur flag = Inr (p, skip', cur') \<Longrightarrow>
   cur' = cur \<or> (\<exists>v \<in> set verse_ids. cur' = Some v)"
  by (auto simp: handle_verse_tag_def Let_def split: if_splits sum.splits prod.splits)

lemma handle_child_current:
  "handle_child_element lib el verse_ids skip cur flag nt = Inr (p, skip', cur') \<Longrightarrow>
     cur' = cur \<or> (\<exists>v \<in> set verse_ids. cur' = Some v)"
  "handle_grandchildren lib els verse_ids cur flag nt para skip ncur = Inr (p, skip', cur') \<Longrightarrow>
     cur' = ncur \<or> cur' = cur \<or> (\<exists>v \<in> set verse_ids. cur' = Some v)"
proof (induction lib el verse_ids skip cur flag nt and lib els verse_ids cur flag nt para skip ncur
       arbitrary: p skip' cur' and p skip' cur'
       rule: handle_child_element_handle_grandchildren.induct)
  case (1 lib tg ats tx ta cs verse_ids skip cur flag nt)
  show ?case
  proof (cases "strip_namespace_from_tag tg")
    case (Inl e)
    with "1.prems" show ?thesis by simp
  next
    case (Inr t)
    show ?thesis
    proof (cases "t = ''verse''")
      case True
      with Inr "1.prems" show ?thesis
        by (auto dest: handle_verse_tag_current)
    next
      case False
      with Inr "1.prems" "1.IH"[OF Inr False] show ?thesis
        by (auto split: if_splits sum.splits prod.splits)
    qed
  qed
next
  case (2 lib verse_ids cur flag nt para skip ncur)
  then show ?case by simp
next
  case (3 lib g rest verse_ids cur flag nt para skip ncur)
  from "3.prems" obtain gp s1 c1 where
    g: "handle_child_element lib g verse_ids skip cur flag nt = Inr (gp, s1, c1)"
    and r: "handle_grandchildren lib rest verse_ids cur flag nt (para @ gp) s1 c1 = Inr (p, skip', cur')"
    by (auto split: sum.splits prod.splits)
  from "3.IH"(1)[OF g] have "c1 = cur \<or> (\<exists>v \<in> set verse_ids. c1 = Some v)" .
  moreover from "3.IH"(2)[OF g refl refl r]
  have "cur' = c1 \<or> cur' = cur \<or> (\<exists>v \<in> set verse_ids. cur' = Some v)" .
  ultimately show ?case by auto
qed

lemma paragraph_loop_current:
  "paragraph_loop lib els verse_ids flag para skip cur = Inr (p, skip', cur') \<Longrightarrow>
     cur' = cur \<or> (\<exists>v \<in> set verse_ids. cur' = Some v)"
proof (induction els arbitrary: para skip cur)
  case Nil
  then show ?case by simp
next
  case (Cons c rest)
  from Cons.prems obtain cp s1 c1 para1 where
    c: "handle_child_element lib c verse_ids skip cur flag False = Inr (cp, s1, c1)"
    and r: "paragraph_loop lib rest verse_ids flag para1 s1 c1 = Inr (p, skip', cur')"
    by (auto split: sum.splits prod.splits if_splits)
  from handle_child_current(1)[OF c] Cons.IH[OF r] show ?case by auto
qed

lemma get_paragraph_from_element_current:
  "get_paragraph_from_element lib pe verse_ids cur flag = Inr (ps, cur') \<Longrightarrow>
     cur' = cur \<or> (\<exists>v \<in> set verse_ids. cur' = Some v)"
  by (auto simp: get_paragraph_from_element_def split: option.splits sum.splits prod.splits
           dest: paragraph_loop_current)

lemma tuple_index_from_member:
  "v \<in> set vs \<Longrightarrow> \<exists>i. tuple_index_from n vs (Some v) = Inr i \<and> n \<le> i \<and> i < n + length vs"
proof (induction vs arbitrary: n)
  case Nil
  then show ?case by simp
next
  case (Cons a vs)
  show ?case
  proof (cases "a = v")
    case True
    then show ?thesis by simp
  next
    case False
    with Cons.prems have "v \<in> set vs" by simp
    from Cons.IH[OF this, of "Suc n"] False show ?thesis by auto
  qed
qed

lemma tuple_index_member:
  "v \<in> set verse_ids \<Longrightarrow> \<exists>i. tuple_index verse_ids (Some v) = Inr i \<and> i < length verse_ids"
  using tuple_index_from_member[of v verse_ids 0] by (auto simp: tuple_index_def)

text \<open>
  Every argument is accessible for the call relation of \<open>get_paragraphs\<close>: a
  recursive call is made on a suffix that is shorter than the tuple.
\<close>

lemma get_paragraphs_total: "get_paragraphs_dom (lib, root, nss, verse_ids, flag)"
proof (induction verse_ids rule: measure_induct_rule[where f = length])
  case (less verse_ids)
  show ?case
  proof (rule accpI)
    fix y
    assume "get_paragraphs_rel y (lib, root, nss, verse_ids, flag)"
    then obtain i where "y = (lib, root, nss, drop (i + 1) verse_ids, flag)" "i + 1 < length verse_ids"
      by (cases rule: get_paragraphs_rel.cases) auto
    with less.IH[of "drop (i + 1) verse_ids"] show "get_paragraphs_dom y" by simp
  qed
qed

section \<open>Termination of the recursion over the requested identifiers\<close>

text \<open>
  Claim C10. For a non-empty tuple of verse identifiers the recursion of
  \<open>_get_paragraphs\<close> is well founded (its argument is in the domain of the function).
  The reason: when \<open>_get_paragraph_from_element\<close>, started from the first identifier,
  returns, the current identifier it returns is a member of the tuple, so
  \<open>verse_ids.index\<close> finds it at some position \<open>i\<close>, the suffix from \<open>i + 1\<close> is
  strictly shorter than the tuple, and it is non-empty whenever the recursive call is
  made (\<open>i + 1 < len(verse_ids)\<close>).
\<close>
theorem get_paragraphs_terminates:
  "verse_ids \<noteq> [] \<Longrightarrow>
     get_paragraphs_dom (lib, root, nss, verse_ids, flag) \<and>
     (get_paragraph_from_element lib pe verse_ids (Some (hd verse_ids)) flag = Inr (ps, cur) \<longrightarrow>
        cur \<in> Some ` set verse_ids \<and>
        (case tuple_index verse_ids cur of
           Inl e \<Rightarrow> False
         | Inr i \<Rightarrow> i < length verse_ids \<and>
             length (drop (i + 1) verse_ids) < length verse_ids \<and>
             (i + 1 < length verse_ids \<longrightarrow> drop (i + 1) verse_ids \<noteq> [])))"
proof (intro conjI impI)
  assume ne: "verse_ids \<noteq> []"
  show "get_paragraphs_dom (lib, root, nss, verse_ids, flag)"
    by (rule get_paragraphs_total)
  assume r: "get_paragraph_from_element lib pe verse_ids (Some (hd verse_ids)) flag = Inr (ps, cur)"
  from ne have hd: "hd verse_ids \<in> set verse_ids" by simp
  from get_paragraph_from_element_current[OF r] hd
  obtain v where v: "v \<in> set verse_ids" "cur = Some v" by auto
  then show "cur \<in> Some ` set verse_ids" by simp
  from tuple_index_member[OF v(1)] obtain i where
    i: "tuple_index verse_ids (Some v) = Inr i" "i < length verse_ids" by auto
  with v ne show "case tuple_index verse_ids cur of
           Inl e \<Rightarrow> False
         | Inr i \<Rightarrow> i < length verse_ids \<and>
             length (drop (i + 1) verse_ids) < length verse_ids \<and>
             (i + 1 < length verse_ids \<longrightarrow> drop (i + 1) verse_ids \<noteq> [])"
    by simp
qed

lemma sample_paragraph_1_extract:
  "get_paragraph_from_element sample_lib (Some sample_paragraph_1) [1001001, 1001004]
     (Some (hd [1001001, 1001004])) True = Inr ([''1. one''], Some 1001001)"
  by code_simp

theorem get_paragraphs_terminates_witness:
  "[1001001, 1001004 :: int] \<noteq> [] \<and>
   get_paragraphs_dom (sample_lib, sample_document, [(''xmlns'', ''u'')], [1001001, 1001004], True) \<and>
   get_paragraph_from_element sample_lib (Some sample_paragraph_1) [1001001, 1001004]
     (Some (hd [1001001, 1001004])) True = Inr ([''1. one''], Some 1001001) \<and>
   tuple_index [1001001, 1001004] (Some 1001001) = Inr 0 \<and>
   0 + 1 < length [1001001, 1001004 :: int] \<and>
   drop (0 + 1) [1001001, 1001004 :: int] \<noteq> []"
  using get_paragraphs_terminates[of "[1001001, 1001004]" sample_lib sample_document
      "[(''xmlns'', ''u'')]" True "Some sample_paragraph_1" "[''1. one'']" "Some 1001001"]
    sample_paragraph_1_extract
  by (simp add: tuple_index_def)

section \<open>Verse boundaries\<close>

lemma handle_child_element_verse:
  "strip_namespace_from_tag (tag el) = Inr ''verse'' \<Longrightarrow>
   handle_child_element lib el verse_ids skip cur flag inside_note =
     handle_verse_tag lib el verse_ids skip cur flag"
  by (cases el) simp


lemma sample_tag_verse: "strip_namespace_from_tag ''{u}verse'' = Inr ''verse''"
  by code_simp


text \<open>
  Claim C7. A verse boundary whose \<open>osisID\<close> attribute is absent or is the placeholder
  \<open>..\<close> contributes the empty string and returns the skipping flag and the current
  verse identifier exactly as they were passed in, both in \<open>_handle_verse_tag\<close> and
  when \<open>_handle_child_element\<close> dispatches to it.
\<close>
theorem verse_placeholder_keeps_state:
  "element_get child_element ''osisID'' = None \<or>
   element_get child_element ''osisID'' = Some ''..'' \<Longrightarrow>
     handle_verse_tag lib child_element verse_ids skip cur flag = Inr ([], skip, cur) \<and>
     (strip_namespace_from_tag (tag child_element) = Inr ''verse'' \<longrightarrow>
        handle_child_element lib child_element verse_ids skip cur flag inside_note =
          Inr ([], skip, cur))"
  by (auto simp: handle_child_element_verse handle_verse_tag_def)

theorem verse_placeholder_keeps_state_witness:
  "handle_verse_tag sample_lib (Element ''{u}verse'' [] (Some ''text'') (Some ''tail'') [])
     [1001001] True (Some 1001001) True = Inr ([], True, Some 1001001) \<and>
   handle_child_element sample_lib (Element ''{u}verse'' [] (Some ''text'') (Some ''tail'') [])
     [1001001] True (Some 1001001) True False = Inr ([], True, Some 1001001) \<and>
   handle_child_element sample_lib (sample_verse ''..'' ''text'')
     [1001001] False None False False = Inr ([], False, None)"
  using verse_placeholder_keeps_state[of "Element ''{u}verse'' [] (Some ''text'') (Some ''tail'') []"
      sample_lib "[1001001]" True "Some 1001001" True False]
    verse_placeholder_keeps_state[of "sample_verse ''..'' ''text''"
      sample_lib "[1001001]" False None False False]
    sample_tag_verse
  by (simp add: element_get_def sample_verse_def)

text \<open>
  Claim C9. \<open>get_scripture_passage_text\<close> sorts the list it is given in place: when
  the call ends, the caller's list is the sorted list (ascending, same elements), and
  the parser object is the one that was passed in. For the empty list nothing is
  done, and the empty list is its own sorted list.
\<close>
theorem get_scripture_passage_text_sorts_argument:
  "snd (get_scripture_passage_text lib self (Some verse_ids) kwargs) =
     (self, Some (sort verse_ids)) \<and>
   sorted (sort verse_ids) \<and> set (sort verse_ids) = set verse_ids \<and>
   length (sort verse_ids) = length verse_ids"
  by (simp add: get_scripture_passage_text_def Let_def)












section \<open>Titles and books without an entry\<close>

text \<open>
  Claim C4, as stated, fails: when the document has no title element for the book,
  \<open>find\<close> returns \<open>None\<close> and both accessors raise \<open>AttributeError\<close>. The sample
  document has a division for Exodus without a title.
\<close>
theorem title_missing_element_counterexample:
  "get_book_title_element sample_parser (Book ''EXODUS'') = Inr None \<and>
   get_book_title sample_parser (Book ''EXODUS'') = Inl AttributeError \<and>
   get_short_book_title sample_parser (Book ''EXODUS'') = Inl AttributeError \<and>
   get_book_title sample_parser (Book ''EXODUS'') \<noteq> Inr [] \<and>
   get_short_book_title sample_parser (Book ''EXODUS'') \<noteq> Inr []"
  by code_simp

text \<open>
  Claim C4, amended. When the title element of the book is found, \<open>get_book_title\<close>
  returns its text, or the empty string when it has none, and
  \<open>get_short_book_title\<close> returns its \<open>short\<close> attribute, or the empty string when
  the attribute is absent.
\<close>

theorem title_defaults_when_element_found:
  "get_book_title_element self book = Inr (Some book_title_element) \<Longrightarrow>
     get_book_title self book =
       Inr (case etext book_title_element of None \<Rightarrow> [] | Some t \<Rightarrow> t) \<and>
     get_short_book_title self book =
       Inr (case element_get book_title_element ''short'' of None \<Rightarrow> [] | Some v \<Rightarrow> v) \<and>
     (etext book_title_element = None \<longrightarrow> get_book_title self book = Inr []) \<and>
     (element_get book_title_element ''short'' = None \<longrightarrow>
        get_short_book_title self book = Inr [])"
  by (auto simp: get_book_title_def get_short_book_title_def split: option.splits)

lemma sample_title_element:
  "get_book_title_element sample_parser (Book ''GENESIS'') =
     Inr (Some (Element ''{u}title'' [] None None []))"
  by code_simp

theorem title_defaults_when_element_found_witness:
  "get_book_title_element sample_parser (Book ''GENESIS'') =
     Inr (Some (Element ''{u}title'' [] None None [])) \<and>
   etext (Element ''{u}title'' [] None None []) = None \<and>
   element_get (Element ''{u}title'' [] None None []) ''short'' = None \<and>
   get_book_title sample_parser (Book ''GENESIS'') = Inr [] \<and>
   get_short_book_title sample_parser (Book ''GENESIS'') = Inr []"
  using title_defaults_when_element_found[OF sample_title_element]
    sample_title_element
  by (simp add: element_get_def)






section \<open>Notes and variant readings\<close>

text \<open>
  Inside a note, outside suppression, a child that is not a verse boundary
  contributes its text when it is a variant reading and nothing otherwise, and the
  state is not changed.
\<close>

lemma note_child_contribution:
  "strip_namespace_from_tag (tag c) = Inr t \<Longrightarrow> t \<noteq> ''verse'' \<Longrightarrow>
   handle_child_element lib c verse_ids False cur flag True =
     Inr (if t = ''rdg'' then get_element_text c else [], False, cur)"
  by (cases c) simp

lemma note_children_contribution:
  "\<forall>c \<in> set cs. (case strip_namespace_from_tag (tag c) of
                     Inl e \<Rightarrow> False | Inr t \<Rightarrow> t \<noteq> ''verse'') \<Longrightarrow>
   handle_grandchildren lib cs verse_ids cur flag True para False ncur =
     Inr (para @ concat (map get_element_text
            (filter (\<lambda>c. strip_namespace_from_tag (tag c) = Inr ''rdg'') cs)),
          False, if cs = [] then ncur else cur)"
proof (induction cs arbitrary: para ncur)
  case Nil
  then show ?case by simp
next
  case (Cons c cs)
  from Cons.prems obtain t where t: "strip_namespace_from_tag (tag c) = Inr t" "t \<noteq> ''verse''"
    by (auto split: sum.splits)
  from Cons.prems have rest: "\<forall>c \<in> set cs. (case strip_namespace_from_tag (tag c) of
                     Inl e \<Rightarrow> False | Inr t \<Rightarrow> t \<noteq> ''verse'')" by simp
  show ?case
    using note_child_contribution[OF t, of lib verse_ids cur flag] Cons.IH[OF rest] t
    by (cases cs) auto
qed

text \<open>
  Claim C8, as stated, fails for a note that has a verse boundary among its direct
  children: verse boundaries are dispatched before the inside-note check. A requested
  boundary contributes its text although it is not a variant reading; a boundary
  that is not requested starts suppression, and the reading after it is dropped.
\<close>
theorem note_with_verse_child_counterexample:
  "handle_child_element sample_lib
     (Element ''{u}note'' [] (Some ''Or'') None
        [sample_verse ''Gen.1.2'' ''two'', Element ''{u}rdg'' [] (Some ''reading'') None []])
     [1001002] False (Some 1001002) False False = Inr (''two reading'', False, Some 1001002) \<and>
   handle_child_element sample_lib
     (Element ''{u}note'' [] (Some ''Or'') None
        [sample_verse ''Gen.1.3'' ''three'', Element ''{u}rdg'' [] (Some ''reading'') None []])
     [1001002] False (Some 1001002) False False = Inr ([], True, Some 1001002)"
  by code_simp

text \<open>
  Claim C8, amended. A note that is handled outside suppression and outside another
  note, and has no verse boundary among its direct children, contributes the cleaned
  concatenation of the texts of its variant-reading children, in document order; its
  own text and its other children contribute nothing, and the traversal state is
  returned unchanged.
\<close>

theorem note_keeps_only_readings:
  "strip_namespace_from_tag (tag note_element) = Inr ''note'' \<Longrightarrow>
   \<forall>c \<in> set (children note_element).
      (case strip_namespace_from_tag (tag c) of Inl e \<Rightarrow> False | Inr t \<Rightarrow> t \<noteq> ''verse'') \<Longrightarrow>
     handle_child_element lib note_element verse_ids False cur flag False =
       Inr (clean_paragraph (concat (map get_element_text
              (filter (\<lambda>c. strip_namespace_from_tag (tag c) = Inr ''rdg'')
                 (children note_element)))),
            False, cur)"
proof -
  assume n: "strip_namespace_from_tag (tag note_element) = Inr ''note''"
    and cs: "\<forall>c \<in> set (children note_element).
      (case strip_namespace_from_tag (tag c) of Inl e \<Rightarrow> False | Inr t \<Rightarrow> t \<noteq> ''verse'')"
  obtain tg ats tx ta els where el: "note_element = Element tg ats tx ta els"
    by (cases note_element)
  from cs el have "handle_grandchildren lib els verse_ids cur flag True [] False cur =
     Inr ([] @ concat (map get_element_text
            (filter (\<lambda>c. strip_namespace_from_tag (tag c) = Inr ''rdg'') els)),
          False, if els = [] then cur else cur)"
    by (intro note_children_contribution) simp
  with n el show ?thesis by simp
qed

lemma sample_note_tags:
  "strip_namespace_from_tag ''{u}note'' = Inr ''note''"
  "strip_namespace_from_tag ''{u}catchWord'' = Inr ''catchWord''"
  "strip_namespace_from_tag ''{u}rdg'' = Inr ''rdg''"
  by code_simp+

theorem note_keeps_only_readings_witness:
  "handle_child_element sample_lib sample_note [1001001] False (Some 1001001) True False =
     Inr (''reading'', False, Some 1001001)"
proof -
  have c: "clean_paragraph ''reading'' = ''reading''" by code_simp
  show ?thesis
    using note_keeps_only_readings[of sample_note sample_lib "[1001001]" "Some 1001001" True]
      sample_note_tags c
    by (simp add: sample_note_def get_element_text_def replace_def)
qed

section \<open>Joining the contributions of the children\<close>

text \<open>
  The loop of \<open>_get_paragraph_from_element\<close> computes the joining rule on the list of
  its children's contributions; the loop over the grandchildren appends them.
\<close>

lemma join_with_spaces_append:
  "c \<noteq> [] \<Longrightarrow> join_with_spaces ((x @ c) # ys) = x @ join_with_spaces (c # ys)"
  by (cases ys) (simp_all add: endswith_space_def)

lemma paragraph_loop_joins:
  "paragraph_loop lib els verse_ids flag para skip cur =
     (case child_contributions lib els verse_ids flag skip cur of
        Inl e \<Rightarrow> Inl e
      | Inr (cs, skip', cur') \<Rightarrow> Inr (join_contributions (para # cs), skip', cur'))"
proof (induction els arbitrary: para skip cur)
  case Nil
  then show ?case by (simp add: join_contributions_def)
next
  case (Cons c rest)
  show ?case
  proof (cases "handle_child_element lib c verse_ids skip cur flag False")
    case (Inl e)
    then show ?thesis by simp
  next
    case (Inr r)
    obtain cp s1 c1 where r: "r = (cp, s1, c1)" by (cases r)
    show ?thesis
    proof (cases "child_contributions lib rest verse_ids flag s1 c1")
      case (Inl e)
      with Inr r Cons.IH show ?thesis by simp
    next
      case rr: (Inr q)
      obtain cs s2 c2 where q: "q = (cs, s2, c2)" by (cases q)
      have "join_contributions
              (((if 0 < length para \<and> \<not> endswith_space para then para @ '' '' else para) @ cp) # cs) =
            join_contributions (para # cp # cs)" if "cp \<noteq> []"
        using that join_with_spaces_append[of cp para "filter (\<lambda>c. c \<noteq> []) cs"]
          join_with_spaces_append[of cp "para @ '' ''" "filter (\<lambda>c. c \<noteq> []) cs"]
        by (auto simp: join_contributions_def)
      with Inr r rr q Cons.IH show ?thesis
        by (auto simp: join_contributions_def)
    qed
  qed
qed

lemma handle_grandchildren_concat:
  "handle_grandchildren lib els verse_ids cur flag nt para skip ncur =
     (case grandchild_contributions lib els verse_ids cur flag nt skip ncur of
        Inl e \<Rightarrow> Inl e
      | Inr (cs, skip', cur') \<Rightarrow> Inr (para @ concat cs, skip', cur'))"
  by (induction els arbitrary: para skip ncur) (auto split: sum.splits)

text \<open>
  Claim C6, as stated, fails: an element without a structural role (here a line
  \<open>l\<close>) that is handled by \<open>_handle_child_element\<close> outside suppression appends the
  contributions of its children with nothing between them.
\<close>
theorem nested_children_joined_without_space_counterexample:
  "handle_child_element sample_lib (sample_word ''a'') [1001004] False (Some 1001004) True False
     = Inr (''a'', False, Some 1001004) \<and>
   handle_child_element sample_lib (sample_word ''b'') [1001004] False (Some 1001004) True False
     = Inr (''b'', False, Some 1001004) \<and>
   children sample_line = [sample_word ''a'', sample_word ''b''] \<and>
   strip_namespace_from_tag (tag sample_line) = Inr ''l'' \<and>
   handle_child_element sample_lib sample_line [1001004] False (Some 1001004) True False
     = Inr (''ab'', False, Some 1001004) \<and>
   handle_child_element sample_lib sample_line [1001004] False (Some 1001004) True False
     \<noteq> Inr (''a b'', False, Some 1001004)"
  by code_simp

text \<open>
  Claim C6, amended. The joining rule is that of the paragraph element itself: the
  text of the paragraph is the cleaned join of its children's contributions in
  document order, with one space between two consecutive non-empty contributions
  unless the first of the two ends with a space character. An element without a
  structural role inside the paragraph, handled outside suppression, contributes the
  cleaned concatenation of its children's contributions, nothing inserted.
\<close>

theorem spaces_between_paragraph_children_only:
  "get_paragraph_from_element lib (Some paragraph_element) verse_ids cur flag =
     (case child_contributions lib (children paragraph_element) verse_ids flag False cur of
        Inl e \<Rightarrow> Inl e
      | Inr (cs, skip', cur') \<Rightarrow> Inr ([clean_paragraph (join_contributions cs)], cur')) \<and>
   (strip_namespace_from_tag (tag child_element) = Inr t \<and>
    t \<notin> {''verse'', ''rdg'', ''w'', ''transChange'', ''q'', ''seg'', ''note''} \<longrightarrow>
      handle_child_element lib child_element verse_ids False cur flag False =
        (case grandchild_contributions lib (children child_element) verse_ids cur flag False
                False cur of
           Inl e \<Rightarrow> Inl e
         | Inr (cs, skip', cur') \<Rightarrow> Inr (clean_paragraph (concat cs), skip', cur')))"
proof (intro conjI impI)
  show "get_paragraph_from_element lib (Some paragraph_element) verse_ids cur flag =
     (case child_contributions lib (children paragraph_element) verse_ids flag False cur of
        Inl e \<Rightarrow> Inl e
      | Inr (cs, skip', cur') \<Rightarrow> Inr ([clean_paragraph (join_contributions cs)], cur'))"
    by (simp add: get_paragraph_from_element_def paragraph_loop_joins join_contributions_def
          split: sum.splits)
next
  assume a: "strip_namespace_from_tag (tag child_element) = Inr t \<and>
    t \<notin> {''verse'', ''rdg'', ''w'', ''transChange'', ''q'', ''seg'', ''note''}"
  obtain tg ats tx ta cs where el: "child_element = Element tg ats tx ta cs"
    by (cases child_element)
  from a el show "handle_child_element lib child_element verse_ids False cur flag False =
        (case grandchild_contributions lib (children child_element) verse_ids cur flag False
                False cur of
           Inl e \<Rightarrow> Inl e
         | Inr (cs, skip', cur') \<Rightarrow> Inr (clean_paragraph (concat cs), skip', cur'))"
    by (simp add: handle_grandchildren_concat split: sum.splits)
qed

lemma sample_paragraph_2_contributions:
  "child_contributions sample_lib (children sample_paragraph_2) [1001004] True False
     (Some 1001004) = Inr ([''4. four '', ''ab'', ''reading'', []], True, Some 1001004)"
  by code_simp

lemma sample_line_contributions:
  "grandchild_contributions sample_lib (children sample_line) [1001004] (Some 1001004) True
     False False (Some 1001004) = Inr ([''a'', ''b''], False, Some 1001004)"
  by code_simp

lemma sample_line_tag: "strip_namespace_from_tag (tag sample_line) = Inr ''l''"
  by code_simp

lemma sample_cleaned:
  "clean_paragraph (join_contributions [''4. four '', ''ab'', ''reading'', []]) =
     ''4. four ab reading''"
  "clean_paragraph (concat [''a'', ''b'']) = ''ab''"
  by code_simp+

theorem spaces_between_paragraph_children_only_witness:
  "get_paragraph_from_element sample_lib (Some sample_paragraph_2) [1001004] (Some 1001004) True
     = Inr ([''4. four ab reading''], Some 1001004) \<and>
   strip_namespace_from_tag (tag sample_line) = Inr ''l'' \<and>
   ''l'' \<notin> {''verse'', ''rdg'', ''w'', ''transChange'', ''q'', ''seg'', ''note''} \<and>
   handle_child_element sample_lib sample_line [1001004] False (Some 1001004) True False
     = Inr (''ab'', False, Some 1001004)"
  using spaces_between_paragraph_children_only[of sample_lib sample_paragraph_2 "[1001004]"
      "Some 1001004" True sample_line "''l''"]
    sample_paragraph_2_contributions sample_line_contributions sample_line_tag sample_cleaned
  by simp

section \<open>Requested identifiers without a verse boundary\<close>








text \<open>
  From here on the recursive equations of \<open>get_paragraphs\<close> and \<open>call_starts\<close> are
  unfolded by hand, one step at a time.
\<close>

declare get_paragraphs.simps [simp del] call_starts.simps [simp del]












end
